theory Spec2Isabelle
  imports Main "HOL-Library.Word" "HOL-Library.Multiset" "HOL-Library.AList"
begin

section \<open>Values of the Go runtime and of the libraries the providers call\<close>

text \<open>
  A Go \<^verbatim>\<open>error\<close> built by \<^verbatim>\<open>fmt.Errorf\<close> is its formatted message; the verb
  \<^verbatim>\<open>%v\<close> applied to an error prints that message. A Go \<^verbatim>\<open>string\<close> is a sequence of
  bytes, here a \<^typ>\<open>string\<close>.
\<close>

datatype error = Errorf string

fun Error_msg :: "error \<Rightarrow> string" where
  "Error_msg (Errorf s) = s"

text \<open>Run-time panics of the Go code that the models below can reach.\<close>

datatype panic =
    IndexOutOfRange nat nat  \<comment> \<open>index, length of the slice\<close>
  | CloseOfClosedChannel

abbreviation apostrophe :: char where
  "apostrophe \<equiv> CHR 0x27"

subsection \<open>The logger\<close>

text \<open>
  Every provider holds a \<^verbatim>\<open>*zap.Logger\<close>. The model keeps the sequence of calls made on
  it: level, message and fields, in the order of the calls.
\<close>

datatype zap_level = DebugLevel | InfoLevel | ErrorLevel

datatype zap_field =
    zap_String string string
  | zap_Int string int
  | zap_Error error

type_synonym zap_entry = "zap_level \<times> string \<times> zap_field list"

subsection \<open>\<^verbatim>\<open>strconv\<close> and \<^verbatim>\<open>net.JoinHostPort\<close>\<close>

text \<open>The decimal digits of a natural number, most significant first.\<close>

function decimal_digits :: "nat \<Rightarrow> string" where
  "decimal_digits n =
     (if n < 10 then [''0123456789'' ! n]
      else decimal_digits (n div 10) @ [''0123456789'' ! (n mod 10)])"
  by pat_completeness auto
termination
  by (relation "measure id") auto

declare decimal_digits.simps [simp del]

text \<open>\<^verbatim>\<open>strconv.FormatUint(p, 10)\<close> on a \<^verbatim>\<open>uint64\<close>.\<close>

definition FormatUint10 :: "64 word \<Rightarrow> string" where
  "FormatUint10 p = decimal_digits (unat p)"

text \<open>
  \<^verbatim>\<open>strconv.Itoa\<close> on a Go \<^verbatim>\<open>int\<close>. No arithmetic is done on the ports the providers
  format, so the model takes the value as an \<^typ>\<open>int\<close>.
\<close>

definition Itoa :: "int \<Rightarrow> string" where
  "Itoa i = (if i < 0 then CHR ''-'' # decimal_digits (nat (- i)) else decimal_digits (nat i))"

text \<open>
  \<^verbatim>\<open>net.JoinHostPort\<close>: \<^verbatim>\<open>host:port\<close>, and \<^verbatim>\<open>[host]:port\<close> when the host contains a
  colon, as a literal IPv6 address does.
\<close>

definition JoinHostPort :: "string \<Rightarrow> string \<Rightarrow> string" where
  "JoinHostPort host port =
     (if CHR '':'' \<in> set host then ''['' @ host @ '']:'' @ port
      else host @ '':'' @ port)"

subsection \<open>The endpoint record\<close>

text \<open>\<^verbatim>\<open>reverseproxy.Upstream\<close>: the providers set only its dial target.\<close>

record Upstream =
  Dial :: string

section \<open>The Registry-Push provider (\<^verbatim>\<open>internal/providers/nacos/nacos.go\<close>)\<close>

text \<open>The fields of \<^verbatim>\<open>model.Instance\<close> that the subscription callback reads.\<close>

record model_Instance =
  Ip :: string
  Port :: "64 word"
  Enable :: bool
  Healthy :: bool

text \<open>
  The naming client is a remote service. The model records the calls the provider makes on
  it; what each call answers is an argument of the operation that makes the call.
\<close>

datatype client_call =
    Subscribe string string "string list"  \<comment> \<open>service, group, clusters\<close>
  | Unsubscribe string string  \<comment> \<open>service, group\<close>
  | CloseClient

record NamingClient =
  calls :: "client_call list"

record NacosProvider =
  ServerAddr :: string
  ServerPort :: "64 word"
  NamespaceID :: string
  ServiceName :: string
  GroupName :: string
  Clusters :: "string list"
  client :: "NamingClient option"  \<comment> \<open>\<open>None\<close> is the nil interface value\<close>
  logger :: "zap_entry list"
  upstreams :: "Upstream list"

definition Nacos_New :: NacosProvider where
  "Nacos_New =
     \<lparr>ServerAddr = '''', ServerPort = 0, NamespaceID = '''', ServiceName = '''',
      GroupName = ''DEFAULT_GROUP'', Clusters = [], client = None, logger = [],
      upstreams = []\<rparr>"

definition Nacos_log :: "zap_level \<Rightarrow> string \<Rightarrow> zap_field list \<Rightarrow> NacosProvider \<Rightarrow> NacosProvider" where
  "Nacos_log lvl m fs np = np\<lparr>NacosProvider.logger := NacosProvider.logger np @ [(lvl, m, fs)]\<rparr>"

text \<open>
  The loop of the subscription callback over the delivered instances; the first argument is
  \<^verbatim>\<open>newUpstreams\<close>, which \<^verbatim>\<open>append\<close> extends at its end.
\<close>

fun SubscribeCallback_loop :: "Upstream list \<Rightarrow> model_Instance list \<Rightarrow> Upstream list" where
  "SubscribeCallback_loop newUpstreams [] = newUpstreams"
| "SubscribeCallback_loop newUpstreams (service # services) =
     SubscribeCallback_loop
       (if Enable service \<and> Healthy service
        then newUpstreams @ [\<lparr>Dial = JoinHostPort (Ip service) (FormatUint10 (Port service))\<rparr>]
        else newUpstreams)
       services"

text \<open>
  \<^verbatim>\<open>SubscribeCallback\<close>, the closure built in \<^verbatim>\<open>subscribeToServiceChanges\<close>; \<open>err\<close> is
  \<open>None\<close> for a nil error.
\<close>

definition SubscribeCallback :: "NacosProvider \<Rightarrow> model_Instance list \<Rightarrow> error option \<Rightarrow> NacosProvider" where
  "SubscribeCallback np services err =
     (case err of
        Some e \<Rightarrow> Nacos_log ErrorLevel ''nacos subscription callback error'' [zap_Error e] np
      | None \<Rightarrow>
          (let newUpstreams = SubscribeCallback_loop [] services
           in Nacos_log DebugLevel ''updated upstreams from nacos''
                [zap_String ''service'' (NacosProvider.ServiceName np),
                 zap_Int ''count'' (int (length newUpstreams))]
                (np\<lparr>NacosProvider.upstreams := newUpstreams\<rparr>)))"

text \<open>
  \<^verbatim>\<open>subscribeToServiceChanges\<close>; \<open>sub\<close> is what \<^verbatim>\<open>np.client.Subscribe\<close> returns. It is
  called from \<^verbatim>\<open>Provision\<close> only, after the client has been stored.
\<close>

definition subscribeToServiceChanges ::
  "error option \<Rightarrow> NamingClient \<Rightarrow> NacosProvider \<Rightarrow> NacosProvider \<times> error option" where
  "subscribeToServiceChanges sub c np =
     (let np1 = np\<lparr>client := Some (c\<lparr>calls := calls c @
                  [Subscribe (NacosProvider.ServiceName np) (GroupName np) (Clusters np)]\<rparr>)\<rparr>
      in case sub of
           Some err \<Rightarrow>
             (np1, Some (Errorf (''subscribing to nacos service '' @ [apostrophe] @
                NacosProvider.ServiceName np @ [apostrophe] @ '': '' @ Error_msg err)))
         | None \<Rightarrow> (np1, None))"

text \<open>
  \<^verbatim>\<open>Provision\<close>; \<open>new_client\<close> is what \<^verbatim>\<open>clients.NewNamingClient\<close> returns, a nil
  client when it returns an error. The logger passed in is taken with the calls already made
  on it.
\<close>

definition Nacos_Provision ::
  "zap_entry list \<Rightarrow> error + NamingClient \<Rightarrow> error option \<Rightarrow> NacosProvider \<Rightarrow>
   NacosProvider \<times> error option" where
  "Nacos_Provision lg new_client sub np =
     (let np1 = Nacos_log InfoLevel ''provisioning nacos service discovery provider''
                  [zap_String ''service'' (NacosProvider.ServiceName np),
                   zap_String ''group'' (GroupName np)]
                  (np\<lparr>NacosProvider.logger := lg\<rparr>)
      in case new_client of
           Inl err \<Rightarrow>
             (np1\<lparr>client := None\<rparr>,
              Some (Errorf (''creating nacos naming client: '' @ Error_msg err)))
         | Inr c \<Rightarrow> subscribeToServiceChanges sub c np1)"

definition Nacos_Validate :: "NacosProvider \<Rightarrow> error option" where
  "Nacos_Validate np =
     (if ServerAddr np = '''' then Some (Errorf ''nacos provider: server_addr is required'')
      else if ServerPort np = 0 then Some (Errorf ''nacos provider: server_port is required'')
      else if NacosProvider.ServiceName np = ''''
        then Some (Errorf ''nacos provider: service_name is required'')
      else None)"

text \<open>\<^verbatim>\<open>Cleanup\<close>; \<open>unsub\<close> is what \<^verbatim>\<open>np.client.Unsubscribe\<close> returns.\<close>

definition Nacos_Cleanup :: "error option \<Rightarrow> NacosProvider \<Rightarrow> NacosProvider \<times> error option" where
  "Nacos_Cleanup unsub np =
     (let np1 = Nacos_log InfoLevel ''cleaning up nacos provider''
                  [zap_String ''service'' (NacosProvider.ServiceName np)] np
      in case client np1 of
           None \<Rightarrow> (np1, None)
         | Some c \<Rightarrow>
             (let c1 = c\<lparr>calls := calls c @
                         [Unsubscribe (NacosProvider.ServiceName np) (GroupName np)]\<rparr>
              in case unsub of
                   Some err \<Rightarrow>
                     (np1\<lparr>client := Some c1\<rparr>,
                      Some (Errorf (''unsubscribing from nacos service '' @ [apostrophe] @
                        NacosProvider.ServiceName np @ [apostrophe] @ '': '' @ Error_msg err)))
                 | None \<Rightarrow>
                     (np1\<lparr>client := Some (c1\<lparr>calls := calls c1 @ [CloseClient]\<rparr>)\<rparr>, None)))"

definition Nacos_GetUpstreams :: "NacosProvider \<Rightarrow> error + Upstream list" where
  "Nacos_GetUpstreams np =
     (if length (NacosProvider.upstreams np) = 0
      then Inl (Errorf (''no healthy upstreams available for service: '' @
                  NacosProvider.ServiceName np))
      else Inr (NacosProvider.upstreams np))"

section \<open>The Registry-Poll provider (the \<^verbatim>\<open>consul\<close> package)\<close>

text \<open>
  The fields of \<^verbatim>\<open>consulApi.ServiceEntry\<close>, of its \<^verbatim>\<open>Node\<close> and of its \<^verbatim>\<open>Service\<close> that
  \<^verbatim>\<open>updateUpstreams\<close> reads.
\<close>

record consul_Node =
  Address :: string

record consul_AgentService =
  Address :: string
  Port :: int

record consul_ServiceEntry =
  Node :: consul_Node
  Service :: consul_AgentService

text \<open>The client, with the address it was built for.\<close>

datatype consul_Client = consul_Client string

text \<open>A channel of \<^verbatim>\<open>struct{}\<close> on which nothing is ever sent: it is open or closed.\<close>

datatype chan = Open | Closed

record ConsulProvider =
  Address :: string
  ServiceName :: string
  Tags :: "string list"
  PassingOnly :: bool
  PollInterval :: int  \<comment> \<open>a \<^verbatim>\<open>time.Duration\<close>, in nanoseconds\<close>
  client :: "consul_Client option"
  logger :: "zap_entry list"
  upstreams :: "Upstream list"
  stopChan :: "chan option"  \<comment> \<open>\<open>None\<close> is the nil channel\<close>

definition Consul_New :: ConsulProvider where
  "Consul_New =
     \<lparr>Address = '''', ServiceName = '''', Tags = [], PassingOnly = True,
      PollInterval = 10 * 1000000000, client = None, logger = [], upstreams = [],
      stopChan = None\<rparr>"

definition Consul_log :: "zap_level \<Rightarrow> string \<Rightarrow> zap_field list \<Rightarrow> ConsulProvider \<Rightarrow> ConsulProvider" where
  "Consul_log lvl m fs cp = cp\<lparr>ConsulProvider.logger := ConsulProvider.logger cp @ [(lvl, m, fs)]\<rparr>"

text \<open>The loop of \<^verbatim>\<open>updateUpstreams\<close> over the service entries of the answer.\<close>

fun Consul_updateUpstreams_loop :: "Upstream list \<Rightarrow> consul_ServiceEntry list \<Rightarrow> Upstream list" where
  "Consul_updateUpstreams_loop newUpstreams [] = newUpstreams"
| "Consul_updateUpstreams_loop newUpstreams (entry # serviceEntries) =
     (let addr = consul_AgentService.Address (Service entry);
          addr = (if addr = '''' then consul_Node.Address (Node entry) else addr)
      in Consul_updateUpstreams_loop
           (newUpstreams @
              [\<lparr>Dial = JoinHostPort addr (Itoa (consul_AgentService.Port (Service entry)))\<rparr>])
           serviceEntries)"

text \<open>
  \<^verbatim>\<open>updateUpstreams\<close>; \<open>query\<close> is what the health query
  \<^verbatim>\<open>cp.client.Health().Service(cp.ServiceName, "", cp.PassingOnly, nil)\<close> answers.
\<close>

definition Consul_updateUpstreams ::
  "error + consul_ServiceEntry list \<Rightarrow> ConsulProvider \<Rightarrow> ConsulProvider \<times> error option" where
  "Consul_updateUpstreams query cp =
     (case query of
        Inl err \<Rightarrow>
          (cp, Some (Errorf (''querying consul for service '' @ [apostrophe] @
             ConsulProvider.ServiceName cp @ [apostrophe] @ '': '' @ Error_msg err)))
      | Inr serviceEntries \<Rightarrow>
          (let newUpstreams = Consul_updateUpstreams_loop [] serviceEntries
           in (Consul_log DebugLevel ''updated upstreams from consul''
                 [zap_String ''service'' (ConsulProvider.ServiceName cp),
                  zap_Int ''count'' (int (length newUpstreams))]
                 (cp\<lparr>ConsulProvider.upstreams := newUpstreams\<rparr>),
               None)))"

text \<open>
  \<^verbatim>\<open>watchServiceChanges\<close> waits for the ticker or for the stop channel, whichever fires
  first. The model takes the events in the order the \<^verbatim>\<open>select\<close> receives them; a tick
  carries the answer the query of that tick gets.
\<close>

datatype watch_event = Tick "error + consul_ServiceEntry list" | Stop

definition Consul_tick :: "error + consul_ServiceEntry list \<Rightarrow> ConsulProvider \<Rightarrow> ConsulProvider" where
  "Consul_tick query cp =
     (case Consul_updateUpstreams query cp of
        (cp1, Some err) \<Rightarrow>
          Consul_log ErrorLevel ''failed to update upstreams from consul'' [zap_Error err] cp1
      | (cp1, None) \<Rightarrow> cp1)"

fun watchServiceChanges :: "watch_event list \<Rightarrow> ConsulProvider \<Rightarrow> ConsulProvider" where
  "watchServiceChanges [] cp = cp"
| "watchServiceChanges (Tick query # events) cp = watchServiceChanges events (Consul_tick query cp)"
| "watchServiceChanges (Stop # events) cp =
     Consul_log InfoLevel ''stopping consul service watcher''
       [zap_String ''service'' (ConsulProvider.ServiceName cp)] cp"

text \<open>
  \<^verbatim>\<open>Provision\<close>; \<open>default_address\<close> is the address of \<^verbatim>\<open>consulApi.DefaultConfig()\<close>,
  \<open>new_client\<close> the error of \<^verbatim>\<open>consulApi.NewClient\<close> and \<open>query\<close> the answer to the first
  query. The watcher it starts is \<^const>\<open>watchServiceChanges\<close>.
\<close>

definition Consul_Provision ::
  "zap_entry list \<Rightarrow> string \<Rightarrow> error option \<Rightarrow> error + consul_ServiceEntry list \<Rightarrow>
   ConsulProvider \<Rightarrow> ConsulProvider \<times> error option" where
  "Consul_Provision lg default_address new_client query cp =
     (let cp1 = Consul_log InfoLevel ''provisioning consul service discovery provider''
                  [zap_String ''service'' (ConsulProvider.ServiceName cp),
                   zap_String ''address'' (ConsulProvider.Address cp)]
                  (cp\<lparr>ConsulProvider.logger := lg\<rparr>);
          cp2 = cp1\<lparr>stopChan := Some Open\<rparr>;
          address = (if ConsulProvider.Address cp \<noteq> '''' then ConsulProvider.Address cp
                     else default_address)
      in case new_client of
           Some err \<Rightarrow>
             (cp2\<lparr>ConsulProvider.client := None\<rparr>,
              Some (Errorf (''creating consul client: '' @ Error_msg err)))
         | None \<Rightarrow>
             (case Consul_updateUpstreams query
                     (cp2\<lparr>ConsulProvider.client := Some (consul_Client address)\<rparr>) of
                (cp3, Some err) \<Rightarrow>
                  (Consul_log ErrorLevel ''initial fetch from consul failed'' [zap_Error err] cp3,
                   None)
              | (cp3, None) \<Rightarrow> (cp3, None)))"

definition Consul_Validate :: "ConsulProvider \<Rightarrow> error option" where
  "Consul_Validate cp =
     (if ConsulProvider.ServiceName cp = ''''
      then Some (Errorf ''consul provider: service_name is required'')
      else None)"

text \<open>\<^verbatim>\<open>Cleanup\<close>; closing a channel that is closed already panics.\<close>

definition Consul_Cleanup :: "ConsulProvider \<Rightarrow> panic + ConsulProvider \<times> error option" where
  "Consul_Cleanup cp =
     (let cp1 = Consul_log InfoLevel ''cleaning up consul provider''
                  [zap_String ''service'' (ConsulProvider.ServiceName cp)] cp
      in case stopChan cp1 of
           None \<Rightarrow> Inr (cp1, None)
         | Some Open \<Rightarrow> Inr (cp1\<lparr>stopChan := Some Closed\<rparr>, None)
         | Some Closed \<Rightarrow> Inl CloseOfClosedChannel)"

definition Consul_GetUpstreams :: "ConsulProvider \<Rightarrow> error + Upstream list" where
  "Consul_GetUpstreams cp =
     (if length (ConsulProvider.upstreams cp) = 0
      then Inl (Errorf (''no healthy upstreams available for service: '' @
                  ConsulProvider.ServiceName cp))
      else Inr (ConsulProvider.upstreams cp))"

section \<open>The Broadcast-Listen provider (\<^verbatim>\<open>internal/providers/mdns/mdns.go\<close>)\<close>

text \<open>
  A \<^verbatim>\<open>net.IP\<close> is a slice of bytes. Its method \<^verbatim>\<open>String\<close> belongs to the Go library; the
  consumer below takes it as the argument \<open>IP_String\<close>.
\<close>

type_synonym IP = "8 word list"

text \<open>The fields of \<^verbatim>\<open>zeroconf.ServiceEntry\<close> that the consumer reads.\<close>

record zeroconf_ServiceEntry =
  Instance :: string
  Port :: int
  TTL :: "32 word"
  AddrIPv4 :: "IP list"
  AddrIPv6 :: "IP list"

record MdnsProvider =
  ServiceName :: string
  Domain :: string
  BrowseTimeout :: int  \<comment> \<open>a \<^verbatim>\<open>time.Duration\<close>, in nanoseconds\<close>
  logger :: "zap_entry list"
  upstreams :: "Upstream list"
  cancelFunc :: "bool option"
    \<comment> \<open>\<open>None\<close> is nil; \<open>Some b\<close> cancels the context of the browser, cancelled already iff \<open>b\<close>\<close>

definition Mdns_New :: MdnsProvider where
  "Mdns_New =
     \<lparr>ServiceName = '''', Domain = ''local.'', BrowseTimeout = 5 * 1000000000, logger = [],
      upstreams = [], cancelFunc = None\<rparr>"

definition Mdns_log :: "zap_level \<Rightarrow> string \<Rightarrow> zap_field list \<Rightarrow> MdnsProvider \<Rightarrow> MdnsProvider" where
  "Mdns_log lvl m fs mp = mp\<lparr>MdnsProvider.logger := MdnsProvider.logger mp @ [(lvl, m, fs)]\<rparr>"

text \<open>
  The map \<^verbatim>\<open>activeServices\<close> is an association list with one pair for each key:
  \<^const>\<open>map_of\<close> reads it, \<^const>\<open>AList.update\<close> is the assignment \<^verbatim>\<open>m[k] = v\<close> and
  \<^const>\<open>AList.delete\<close> is \<^verbatim>\<open>delete(m, k)\<close>. Go leaves the order in which \<^verbatim>\<open>range\<close> visits a
  map open, so \<^verbatim>\<open>updateUpstreams\<close> takes the order of the visit as its argument
  \<open>range_order\<close>, a rearrangement of the pairs.
\<close>

type_synonym activeServices = "(string \<times> Upstream) list"

definition Mdns_updateUpstreams ::
  "(activeServices \<Rightarrow> activeServices) \<Rightarrow> activeServices \<Rightarrow> MdnsProvider \<Rightarrow> MdnsProvider" where
  "Mdns_updateUpstreams range_order activeServices mp =
     (let newUpstreams = foldl (\<lambda>newUpstreams (_, up). newUpstreams @ [up]) []
                           (range_order activeServices)
      in Mdns_log DebugLevel ''updated upstreams from mDNS''
           [zap_Int ''count'' (int (length newUpstreams))]
           (mp\<lparr>MdnsProvider.upstreams := newUpstreams\<rparr>))"

text \<open>
  The body of the loop \<^verbatim>\<open>for entry := range entries\<close> of the consumer that
  \<^verbatim>\<open>runDiscovery\<close> starts, on the map and the provider. Indexing an empty slice panics.
\<close>

definition runDiscovery_entry ::
  "(IP \<Rightarrow> string) \<Rightarrow> (activeServices \<Rightarrow> activeServices) \<Rightarrow> activeServices \<times> MdnsProvider \<Rightarrow>
   zeroconf_ServiceEntry \<Rightarrow> panic + activeServices \<times> MdnsProvider" where
  "runDiscovery_entry IP_String range_order st entry =
     (case st of (activeServices, mp) \<Rightarrow>
        if TTL entry = 0 then
          (case map_of activeServices (Instance entry) of
             Some _ \<Rightarrow>
               (let activeServices1 = AList.delete (Instance entry) activeServices;
                    mp1 = Mdns_log InfoLevel ''mDNS service instance left''
                            [zap_String ''instance'' (Instance entry)] mp
                in Inr (activeServices1, Mdns_updateUpstreams range_order activeServices1 mp1))
           | None \<Rightarrow> Inr (activeServices, mp))
        else if length (AddrIPv4 entry) = 0 then Inl (IndexOutOfRange 0 (length (AddrIPv4 entry)))
        else
          (let addr = IP_String (AddrIPv4 entry ! 0);
               addr = (if addr = '''' \<and> length (AddrIPv6 entry) > 0
                       then IP_String (AddrIPv6 entry ! 0) else addr)
           in if addr = '''' then Inr (activeServices, mp)
              else
                (let upstream = \<lparr>Dial = JoinHostPort addr (Itoa (zeroconf_ServiceEntry.Port entry))\<rparr>;
                     activeServices1 = AList.update (Instance entry) upstream activeServices;
                     mp1 = Mdns_log InfoLevel ''mDNS service instance found/updated''
                             [zap_String ''instance'' (Instance entry),
                              zap_String ''address'' (Dial upstream)] mp
                 in Inr (activeServices1, Mdns_updateUpstreams range_order activeServices1 mp1))))"

text \<open>
  The loop itself, over the entries the browser sends until the channel is closed. A panic
  ends it (and the process).
\<close>

fun runDiscovery_consumer ::
  "(IP \<Rightarrow> string) \<Rightarrow> (activeServices \<Rightarrow> activeServices) \<Rightarrow> activeServices \<times> MdnsProvider \<Rightarrow>
   zeroconf_ServiceEntry list \<Rightarrow> panic + activeServices \<times> MdnsProvider" where
  "runDiscovery_consumer IP_String range_order st [] = Inr st"
| "runDiscovery_consumer IP_String range_order st (entry # entries) =
     (case runDiscovery_entry IP_String range_order st entry of
        Inl p \<Rightarrow> Inl p
      | Inr st1 \<Rightarrow> runDiscovery_consumer IP_String range_order st1 entries)"

text \<open>
  \<^verbatim>\<open>Provision\<close> creates the context and starts \<^verbatim>\<open>runDiscovery\<close>, whose consumer begins with
  an empty map.
\<close>

definition Mdns_Provision :: "zap_entry list \<Rightarrow> MdnsProvider \<Rightarrow> MdnsProvider \<times> error option" where
  "Mdns_Provision lg mp =
     ((Mdns_log InfoLevel ''provisioning mDNS service discovery provider''
         [zap_String ''service'' (MdnsProvider.ServiceName mp), zap_String ''domain'' (Domain mp)]
         (mp\<lparr>MdnsProvider.logger := lg\<rparr>))\<lparr>cancelFunc := Some False\<rparr>,
      None)"

definition Mdns_Validate :: "MdnsProvider \<Rightarrow> error option" where
  "Mdns_Validate mp =
     (if MdnsProvider.ServiceName mp = ''''
      then Some (Errorf (''mdns provider: service_name is required (e.g., '' @ [apostrophe] @
                   ''_http._tcp'' @ [apostrophe] @ '')''))
      else None)"

definition Mdns_Cleanup :: "MdnsProvider \<Rightarrow> MdnsProvider \<times> error option" where
  "Mdns_Cleanup mp =
     (let mp1 = Mdns_log InfoLevel ''cleaning up mDNS provider''
                  [zap_String ''service'' (MdnsProvider.ServiceName mp)] mp
      in case cancelFunc mp1 of
           None \<Rightarrow> (mp1, None)
         | Some _ \<Rightarrow> (mp1\<lparr>cancelFunc := Some True\<rparr>, None))"

definition Mdns_GetUpstreams :: "MdnsProvider \<Rightarrow> error + Upstream list" where
  "Mdns_GetUpstreams mp =
     (if length (MdnsProvider.upstreams mp) = 0
      then Inl (Errorf (''no mDNS instances available for service: '' @
                  MdnsProvider.ServiceName mp))
      else Inr (MdnsProvider.upstreams mp))"

section \<open>The provider interface and its factory (the \<^verbatim>\<open>providers\<close> package)\<close>

text \<open>
  A value of the interface \<^verbatim>\<open>providers.Provider\<close> is one of the three providers the factory
  builds; a method call on it runs the method of that provider. \<open>unsub\<close> is the answer of
  the registry to the unsubscribe call of \<open>Nacos_Cleanup\<close>.
\<close>

datatype Provider = Nacos NacosProvider | Consul ConsulProvider | Mdns MdnsProvider

definition NewProvider :: "string \<Rightarrow> error + Provider" where
  "NewProvider name =
     (if name = ''nacos'' then Inr (Nacos Nacos_New)
      else if name = ''consul'' then Inr (Consul Consul_New)
      else if name = ''mdns'' then Inr (Mdns Mdns_New)
      else Inl (Errorf (''unknown service discovery provider: '' @ [apostrophe] @ name @
                  [apostrophe] @ ''. supported providers are: nacos, consul, mdns'')))"

fun Provider_Validate :: "Provider \<Rightarrow> error option" where
  "Provider_Validate (Nacos np) = Nacos_Validate np"
| "Provider_Validate (Consul cp) = Consul_Validate cp"
| "Provider_Validate (Mdns mp) = Mdns_Validate mp"

fun Provider_Cleanup :: "error option \<Rightarrow> Provider \<Rightarrow> panic + Provider \<times> error option" where
  "Provider_Cleanup unsub (Nacos np) =
     (case Nacos_Cleanup unsub np of (np1, err) \<Rightarrow> Inr (Nacos np1, err))"
| "Provider_Cleanup unsub (Consul cp) =
     (case Consul_Cleanup cp of Inl p \<Rightarrow> Inl p | Inr (cp1, err) \<Rightarrow> Inr (Consul cp1, err))"
| "Provider_Cleanup unsub (Mdns mp) =
     (case Mdns_Cleanup mp of (mp1, err) \<Rightarrow> Inr (Mdns mp1, err))"

fun Provider_GetUpstreams :: "Provider \<Rightarrow> error + Upstream list" where
  "Provider_GetUpstreams (Nacos np) = Nacos_GetUpstreams np"
| "Provider_GetUpstreams (Consul cp) = Consul_GetUpstreams cp"
| "Provider_GetUpstreams (Mdns mp) = Mdns_GetUpstreams mp"

section \<open>The dispatch layer (\<^verbatim>\<open>dynamic_sd/module.go\<close>)\<close>

record DynamicSD =
  provider :: "Provider option"  \<comment> \<open>\<open>None\<close> is the nil interface value\<close>

definition DynamicSD_Validate :: "DynamicSD \<Rightarrow> error option" where
  "DynamicSD_Validate d =
     (case provider d of
        None \<Rightarrow> Some (Errorf ''no service discovery provider is configured'')
      | Some p \<Rightarrow> Provider_Validate p)"

definition DynamicSD_Cleanup :: "error option \<Rightarrow> DynamicSD \<Rightarrow> panic + DynamicSD \<times> error option" where
  "DynamicSD_Cleanup unsub d =
     (case provider d of
        Some p \<Rightarrow>
          (case Provider_Cleanup unsub p of
             Inl pn \<Rightarrow> Inl pn
           | Inr (p1, err) \<Rightarrow> Inr (d\<lparr>provider := Some p1\<rparr>, err))
      | None \<Rightarrow> Inr (d, None))"

definition DynamicSD_GetUpstreams :: "DynamicSD \<Rightarrow> error + Upstream list" where
  "DynamicSD_GetUpstreams d =
     (case provider d of
        None \<Rightarrow> Inl (Errorf ''no service discovery provider is configured'')
      | Some p \<Rightarrow> Provider_GetUpstreams p)"

section \<open>Inputs used to run the models\<close>

text \<open>
  A Registry-Push provider configured for the service \<open>web\<close> and provisioned: the client was
  built and the subscription accepted.
\<close>

definition provisioned_web :: NacosProvider where
  "provisioned_web =
     fst (Nacos_Provision [] (Inr \<lparr>calls = []\<rparr>) None
            (Nacos_New\<lparr>ServerAddr := ''127.0.0.1'', ServerPort := 8848,
                        NacosProvider.ServiceName := ''web''\<rparr>))"

text \<open>
  A browse entry of a host that has an IPv6 address only, \<open>2001:db8::1\<close>, with a time-to-live
  of 120 seconds.
\<close>

definition ipv6_only_entry :: zeroconf_ServiceEntry where
  "ipv6_only_entry =
     \<lparr>Instance = ''printer'', zeroconf_ServiceEntry.Port = 8080, TTL = 120, AddrIPv4 = [],
      AddrIPv6 = [[0x20, 0x01, 0x0d, 0xb8, 0, 0, 0, 0, 0, 0, 0, 0, 0, 0, 0, 1]]\<rparr>"

text \<open>A map of three active instances, and the entry that announces that an instance left.\<close>

definition three_services :: activeServices where
  "three_services =
     [(''a'', \<lparr>Dial = ''10.0.0.1:80''\<rparr>), (''b'', \<lparr>Dial = ''10.0.0.2:80''\<rparr>),
      (''c'', \<lparr>Dial = ''10.0.0.3:80''\<rparr>)]"

definition goodbye :: "string \<Rightarrow> zeroconf_ServiceEntry" where
  "goodbye inst =
     \<lparr>Instance = inst, zeroconf_ServiceEntry.Port = 80, TTL = 0, AddrIPv4 = [], AddrIPv6 = []\<rparr>"

section \<open>Properties of the providers\<close>

subsection \<open>Logging leaves the snapshot and the configuration alone\<close>

lemma Nacos_upstreams_log [simp]:
  "NacosProvider.upstreams (Nacos_log lvl m fs np) = NacosProvider.upstreams np"
  by (simp add: Nacos_log_def)

lemma Nacos_ServiceName_log [simp]:
  "NacosProvider.ServiceName (Nacos_log lvl m fs np) = NacosProvider.ServiceName np"
  by (simp add: Nacos_log_def)

lemma Consul_upstreams_log [simp]:
  "ConsulProvider.upstreams (Consul_log lvl m fs cp) = ConsulProvider.upstreams cp"
  by (simp add: Consul_log_def)

lemma Consul_ServiceName_log [simp]:
  "ConsulProvider.ServiceName (Consul_log lvl m fs cp) = ConsulProvider.ServiceName cp"
  by (simp add: Consul_log_def)

subsection \<open>What a successful refresh installs\<close>

lemma SubscribeCallback_loop_append:
  "SubscribeCallback_loop acc services =
     acc @ map (\<lambda>s. \<lparr>Dial = JoinHostPort (Ip s) (FormatUint10 (model_Instance.Port s))\<rparr>)
             (filter (\<lambda>s. Enable s \<and> Healthy s) services)"
  by (induction services arbitrary: acc) simp_all

lemma SubscribeCallback_success:
  "NacosProvider.upstreams (SubscribeCallback np services None) =
     map (\<lambda>s. \<lparr>Dial = JoinHostPort (Ip s) (FormatUint10 (model_Instance.Port s))\<rparr>)
       (filter (\<lambda>s. Enable s \<and> Healthy s) services)"
  by (simp add: SubscribeCallback_def SubscribeCallback_loop_append)

lemma FormatUint10_8080: "FormatUint10 8080 = ''8080''"
  by (simp add: FormatUint10_def decimal_digits.simps)

text \<open>
  Claim C6. After a notification of the registry that carries no error, the snapshot of the
  Registry-Push provider holds, in the order of delivery, the dial target \<open>ip:port\<close> of each
  delivered instance that is both enabled and healthy, and nothing else. Delivering
  \<open>10.0.0.1:8080\<close> enabled and healthy, and \<open>10.0.0.2:8080\<close> enabled but not healthy, installs
  the single endpoint \<open>10.0.0.1:8080\<close>.
\<close>

theorem SubscribeCallback_installs_enabled_healthy:
  "map Dial (NacosProvider.upstreams (SubscribeCallback np services None)) =
     map (\<lambda>s. JoinHostPort (Ip s) (FormatUint10 (model_Instance.Port s)))
       (filter (\<lambda>s. Enable s \<and> Healthy s) services)
   \<and> NacosProvider.upstreams (SubscribeCallback np
        [\<lparr>Ip = ''10.0.0.1'', model_Instance.Port = 8080, Enable = True, Healthy = True\<rparr>,
         \<lparr>Ip = ''10.0.0.2'', model_Instance.Port = 8080, Enable = True, Healthy = False\<rparr>]
        None) =
       [\<lparr>Dial = ''10.0.0.1:8080''\<rparr>]"
  by (simp add: SubscribeCallback_success comp_def JoinHostPort_def FormatUint10_8080)

lemma Consul_updateUpstreams_loop_append:
  "Consul_updateUpstreams_loop acc entries =
     acc @ map (\<lambda>e. \<lparr>Dial = JoinHostPort
                   (if consul_AgentService.Address (Service e) \<noteq> ''''
                    then consul_AgentService.Address (Service e)
                    else consul_Node.Address (Node e))
                   (Itoa (consul_AgentService.Port (Service e)))\<rparr>) entries"
  by (induction entries arbitrary: acc) (simp_all add: Let_def)

lemma Consul_updateUpstreams_success:
  "Consul_updateUpstreams (Inr entries) cp =
     (Consul_log DebugLevel ''updated upstreams from consul''
        [zap_String ''service'' (ConsulProvider.ServiceName cp),
         zap_Int ''count'' (int (length entries))]
        (cp\<lparr>ConsulProvider.upstreams :=
           map (\<lambda>e. \<lparr>Dial = JoinHostPort
                   (if consul_AgentService.Address (Service e) \<noteq> ''''
                    then consul_AgentService.Address (Service e)
                    else consul_Node.Address (Node e))
                   (Itoa (consul_AgentService.Port (Service e)))\<rparr>) entries\<rparr>),
      None)"
  by (simp add: Consul_updateUpstreams_def Consul_updateUpstreams_loop_append)

lemma Itoa_9000: "Itoa 9000 = ''9000''"
  by (simp add: Itoa_def decimal_digits.simps)

text \<open>
  Claim C7. After a query of the Registry-Poll provider that succeeds, whether the first one
  of \<open>Provision\<close> or one of a tick, the snapshot holds one dial target for each service entry
  of the answer, in the order of the answer: the address of the service when that is not
  empty and the address of the node otherwise, joined with the port of the service. The
  entry with no service address, node address \<open>10.0.0.5\<close> and port 9000 gives the snapshot
  \<open>10.0.0.5:9000\<close>.
\<close>

theorem Consul_updateUpstreams_address_fallback:
  "snd (Consul_updateUpstreams (Inr serviceEntries) cp) = None
   \<and> map Dial (ConsulProvider.upstreams (fst (Consul_updateUpstreams (Inr serviceEntries) cp))) =
       map (\<lambda>e. JoinHostPort
                   (if consul_AgentService.Address (Service e) \<noteq> ''''
                    then consul_AgentService.Address (Service e)
                    else consul_Node.Address (Node e))
                   (Itoa (consul_AgentService.Port (Service e)))) serviceEntries
   \<and> ConsulProvider.upstreams (Consul_tick (Inr serviceEntries) cp) =
       ConsulProvider.upstreams (fst (Consul_updateUpstreams (Inr serviceEntries) cp))
   \<and> ConsulProvider.upstreams (fst (Consul_updateUpstreams
        (Inr [\<lparr>Node = \<lparr>consul_Node.Address = ''10.0.0.5''\<rparr>,
               Service = \<lparr>consul_AgentService.Address = '''',
                          consul_AgentService.Port = 9000\<rparr>\<rparr>]) cp)) =
       [\<lparr>Dial = ''10.0.0.5:9000''\<rparr>]"
  by (simp add: Consul_updateUpstreams_success Consul_tick_def comp_def JoinHostPort_def
        Itoa_9000)

subsection \<open>Refreshes that fail, and refreshes that bring nothing\<close>

lemma Consul_tick_failed:
  "ConsulProvider.upstreams (Consul_tick (Inl err) cp) = ConsulProvider.upstreams cp"
  by (simp add: Consul_tick_def Consul_updateUpstreams_def)

lemma watchServiceChanges_failed_ticks:
  "ConsulProvider.upstreams (watchServiceChanges (map (\<lambda>err. Tick (Inl err)) errs) cp) =
     ConsulProvider.upstreams cp"
  by (induction errs arbitrary: cp) (simp_all add: Consul_tick_failed)

text \<open>
  Claim C5. A refresh that fails leaves the installed snapshot as it was. The callback of
  the Registry-Push provider, called with an error, only writes to the logger: every other
  field of the provider, the upstream list among them, is unchanged, and a fetch answers as
  before. A query of the Registry-Poll provider that fails returns the provider unchanged
  together with an error; the tick that made the query logs the error and keeps the upstream
  list, and so does any run of ticks whose queries all fail.
\<close>

theorem failed_refresh_keeps_snapshot:
  "SubscribeCallback np services (Some err) =
     np\<lparr>NacosProvider.logger := NacosProvider.logger np @
          [(ErrorLevel, ''nacos subscription callback error'', [zap_Error err])]\<rparr>
   \<and> NacosProvider.upstreams (SubscribeCallback np services (Some err)) = NacosProvider.upstreams np
   \<and> Nacos_GetUpstreams (SubscribeCallback np services (Some err)) = Nacos_GetUpstreams np
   \<and> fst (Consul_updateUpstreams (Inl err) cp) = cp
   \<and> snd (Consul_updateUpstreams (Inl err) cp) =
       Some (Errorf (''querying consul for service '' @ [apostrophe] @
         ConsulProvider.ServiceName cp @ [apostrophe] @ '': '' @ Error_msg err))
   \<and> ConsulProvider.upstreams (Consul_tick (Inl err) cp) = ConsulProvider.upstreams cp
   \<and> Consul_GetUpstreams (Consul_tick (Inl err) cp) = Consul_GetUpstreams cp
   \<and> ConsulProvider.upstreams (watchServiceChanges (map (\<lambda>e. Tick (Inl e)) errs) cp) =
       ConsulProvider.upstreams cp"
  by (simp add: SubscribeCallback_def Nacos_log_def Nacos_GetUpstreams_def
        Consul_updateUpstreams_def Consul_tick_def Consul_log_def Consul_GetUpstreams_def
        watchServiceChanges_failed_ticks)

lemma Consul_tick_ServiceName [simp]:
  "ConsulProvider.ServiceName (Consul_tick query cp) = ConsulProvider.ServiceName cp"
  by (cases query) (simp_all add: Consul_tick_def Consul_updateUpstreams_def Let_def)

lemma watchServiceChanges_ServiceName [simp]:
  "ConsulProvider.ServiceName (watchServiceChanges events cp) = ConsulProvider.ServiceName cp"
  by (induction events cp rule: watchServiceChanges.induct) simp_all

lemma Consul_tick_empty:
  "ConsulProvider.upstreams (Consul_tick (Inr []) cp) = []"
  by (simp add: Consul_tick_def Consul_updateUpstreams_success)

lemma SubscribeCallback_none_passes:
  "\<forall>s \<in> set services. \<not> (Enable s \<and> Healthy s) \<Longrightarrow>
   NacosProvider.upstreams (SubscribeCallback np services None) = []"
  by (simp add: SubscribeCallback_success)

lemma SubscribeCallback_ServiceName [simp]:
  "NacosProvider.ServiceName (SubscribeCallback np services err) = NacosProvider.ServiceName np"
  by (cases err) (simp_all add: SubscribeCallback_def Let_def)

text \<open>
  Claim C10. A refresh that succeeds with no endpoint empties the snapshot, whatever was
  installed before. For the Registry-Poll provider, a tick whose query answers with no service
  entry leaves an empty upstream list, the fetch then fails with the unavailability error, and
  it still fails after any run of ticks whose queries fail. For the Registry-Push provider, a
  notification without error in which no instance is both enabled and healthy leaves an empty
  upstream list, the fetch then fails with the unavailability error, and it still fails after
  a notification that carries an error.
\<close>

theorem empty_refresh_clears_snapshot:
  "ConsulProvider.upstreams (Consul_tick (Inr []) cp) = []
   \<and> Consul_GetUpstreams (Consul_tick (Inr []) cp) =
       Inl (Errorf (''no healthy upstreams available for service: '' @
              ConsulProvider.ServiceName cp))
   \<and> Consul_GetUpstreams
         (watchServiceChanges (map (\<lambda>e. Tick (Inl e)) errs) (Consul_tick (Inr []) cp)) =
       Inl (Errorf (''no healthy upstreams available for service: '' @
              ConsulProvider.ServiceName cp))
   \<and> ((\<forall>s \<in> set services. \<not> (Enable s \<and> Healthy s)) \<longrightarrow>
        NacosProvider.upstreams (SubscribeCallback np services None) = [] \<and>
        Nacos_GetUpstreams (SubscribeCallback np services None) =
          Inl (Errorf (''no healthy upstreams available for service: '' @
                 NacosProvider.ServiceName np)) \<and>
        Nacos_GetUpstreams
            (SubscribeCallback (SubscribeCallback np services None) services' (Some err)) =
          Inl (Errorf (''no healthy upstreams available for service: '' @
                 NacosProvider.ServiceName np)))"
proof -
  have consul: "ConsulProvider.upstreams (Consul_tick (Inr []) cp) = []"
    by (rule Consul_tick_empty)
  have watched:
    "ConsulProvider.upstreams
       (watchServiceChanges (map (\<lambda>e. Tick (Inl e)) errs) (Consul_tick (Inr []) cp)) = []"
    by (simp add: watchServiceChanges_failed_ticks consul)
  have nacos: "NacosProvider.upstreams (SubscribeCallback np services None) = []"
    if "\<forall>s \<in> set services. \<not> (Enable s \<and> Healthy s)"
    using that by (rule SubscribeCallback_none_passes)
  have nacos_err:
    "NacosProvider.upstreams
       (SubscribeCallback (SubscribeCallback np services None) services' (Some err)) =
     NacosProvider.upstreams (SubscribeCallback np services None)"
    by (simp add: SubscribeCallback_def)
  show ?thesis
    using consul watched nacos nacos_err
    by (simp add: Consul_GetUpstreams_def Nacos_GetUpstreams_def)
qed

theorem empty_refresh_clears_snapshot_witness:
  "Nacos_GetUpstreams
     (Nacos_New\<lparr>NacosProvider.ServiceName := ''web'',
                 NacosProvider.upstreams := [\<lparr>Dial = ''10.0.0.1:8080''\<rparr>]\<rparr>) =
     Inr [\<lparr>Dial = ''10.0.0.1:8080''\<rparr>]
   \<and> Nacos_GetUpstreams
       (SubscribeCallback
          (Nacos_New\<lparr>NacosProvider.ServiceName := ''web'',
                      NacosProvider.upstreams := [\<lparr>Dial = ''10.0.0.1:8080''\<rparr>]\<rparr>)
          [\<lparr>Ip = ''10.0.0.1'', model_Instance.Port = 8080, Enable = True, Healthy = False\<rparr>]
          None) =
     Inl (Errorf ''no healthy upstreams available for service: web'')"
  using empty_refresh_clears_snapshot
    [where services =
             "[\<lparr>Ip = ''10.0.0.1'', model_Instance.Port = 8080, Enable = True, Healthy = False\<rparr>]"
       and np = "Nacos_New\<lparr>NacosProvider.ServiceName := ''web'',
                    NacosProvider.upstreams := [\<lparr>Dial = ''10.0.0.1:8080''\<rparr>]\<rparr>"]
  by (simp add: Nacos_New_def Nacos_GetUpstreams_def)

subsection \<open>Fetching the snapshot\<close>

text \<open>
  Claim C4, as amended. The fetch of a provider whose snapshot is empty returns an error that
  names the configured service: \<open>no healthy upstreams available for service: <name>\<close> for the
  Registry-Push and the Registry-Poll provider, \<open>no mDNS instances available for service:
  <name>\<close> for the Broadcast-Listen provider. The fetch of a provider whose snapshot is not
  empty returns that snapshot and no error. No fetch, of a provider or of the dispatch layer,
  returns an empty list without an error; with a provider selected, the dispatch layer
  returns what the provider returns.
\<close>

theorem GetUpstreams_empty_is_error:
  "(NacosProvider.upstreams np = [] \<longrightarrow>
      Nacos_GetUpstreams np =
        Inl (Errorf (''no healthy upstreams available for service: '' @
               NacosProvider.ServiceName np)))
   \<and> (ConsulProvider.upstreams cp = [] \<longrightarrow>
      Consul_GetUpstreams cp =
        Inl (Errorf (''no healthy upstreams available for service: '' @
               ConsulProvider.ServiceName cp)))
   \<and> (MdnsProvider.upstreams mp = [] \<longrightarrow>
      Mdns_GetUpstreams mp =
        Inl (Errorf (''no mDNS instances available for service: '' @
               MdnsProvider.ServiceName mp)))
   \<and> (NacosProvider.upstreams np \<noteq> [] \<longrightarrow>
      Nacos_GetUpstreams np = Inr (NacosProvider.upstreams np))
   \<and> (ConsulProvider.upstreams cp \<noteq> [] \<longrightarrow>
      Consul_GetUpstreams cp = Inr (ConsulProvider.upstreams cp))
   \<and> (MdnsProvider.upstreams mp \<noteq> [] \<longrightarrow>
      Mdns_GetUpstreams mp = Inr (MdnsProvider.upstreams mp))
   \<and> Provider_GetUpstreams p \<noteq> Inr []
   \<and> (provider d = Some p \<longrightarrow> DynamicSD_GetUpstreams d = Provider_GetUpstreams p)
   \<and> DynamicSD_GetUpstreams d \<noteq> Inr []"
proof -
  have p: "Provider_GetUpstreams q \<noteq> Inr []" for q
    by (cases q) (simp_all add: Nacos_GetUpstreams_def Consul_GetUpstreams_def Mdns_GetUpstreams_def)
  have d: "DynamicSD_GetUpstreams d \<noteq> Inr []"
    by (cases "provider d") (simp_all add: DynamicSD_GetUpstreams_def p)
  show ?thesis
    using p d
    by (simp add: Nacos_GetUpstreams_def Consul_GetUpstreams_def Mdns_GetUpstreams_def
          DynamicSD_GetUpstreams_def)
qed

theorem GetUpstreams_empty_is_error_witness:
  "Provider_GetUpstreams (Nacos (Nacos_New\<lparr>NacosProvider.ServiceName := ''web''\<rparr>)) =
     Inl (Errorf ''no healthy upstreams available for service: web'')
   \<and> Provider_GetUpstreams (Consul (Consul_New\<lparr>ConsulProvider.ServiceName := ''web''\<rparr>)) =
     Inl (Errorf ''no healthy upstreams available for service: web'')
   \<and> DynamicSD_GetUpstreams
       \<lparr>provider = Some (Mdns (Mdns_New\<lparr>MdnsProvider.ServiceName := ''_http._tcp''\<rparr>))\<rparr> =
     Inl (Errorf ''no mDNS instances available for service: _http._tcp'')
   \<and> Provider_GetUpstreams (Nacos (Nacos_New\<lparr>NacosProvider.ServiceName := ''web'',
        NacosProvider.upstreams := [\<lparr>Dial = ''10.0.0.1:8080''\<rparr>]\<rparr>)) =
     Inr [\<lparr>Dial = ''10.0.0.1:8080''\<rparr>]
   \<and> Provider_GetUpstreams (Consul (Consul_New\<lparr>ConsulProvider.ServiceName := ''web'',
        ConsulProvider.upstreams := [\<lparr>Dial = ''10.0.0.5:9000''\<rparr>]\<rparr>)) =
     Inr [\<lparr>Dial = ''10.0.0.5:9000''\<rparr>]
   \<and> Provider_GetUpstreams (Mdns (Mdns_New\<lparr>MdnsProvider.ServiceName := ''_http._tcp'',
        MdnsProvider.upstreams := [\<lparr>Dial = ''192.168.1.7:80''\<rparr>]\<rparr>)) =
     Inr [\<lparr>Dial = ''192.168.1.7:80''\<rparr>]"
  using
    GetUpstreams_empty_is_error
      [where np = "Nacos_New\<lparr>NacosProvider.ServiceName := ''web''\<rparr>"
         and cp = "Consul_New\<lparr>ConsulProvider.ServiceName := ''web''\<rparr>"
         and mp = "Mdns_New\<lparr>MdnsProvider.ServiceName := ''_http._tcp''\<rparr>"
         and p = "Mdns (Mdns_New\<lparr>MdnsProvider.ServiceName := ''_http._tcp''\<rparr>)"
         and d = "\<lparr>provider = Some (Mdns (Mdns_New\<lparr>MdnsProvider.ServiceName := ''_http._tcp''\<rparr>))\<rparr>"]
    GetUpstreams_empty_is_error
      [where np = "Nacos_New\<lparr>NacosProvider.ServiceName := ''web'',
                     NacosProvider.upstreams := [\<lparr>Dial = ''10.0.0.1:8080''\<rparr>]\<rparr>"
         and cp = "Consul_New\<lparr>ConsulProvider.ServiceName := ''web'',
                     ConsulProvider.upstreams := [\<lparr>Dial = ''10.0.0.5:9000''\<rparr>]\<rparr>"
         and mp = "Mdns_New\<lparr>MdnsProvider.ServiceName := ''_http._tcp'',
                     MdnsProvider.upstreams := [\<lparr>Dial = ''192.168.1.7:80''\<rparr>]\<rparr>"]
  by (simp add: Nacos_New_def Consul_New_def Mdns_New_def)

text \<open>
  The message of claim C4 as it was stated, \<open>no upstreams available for service: <name>\<close>, is
  not the message of the code: for the service \<open>web\<close> the Registry-Push provider with an empty
  snapshot answers \<open>no healthy upstreams available for service: web\<close>, and the
  Broadcast-Listen provider has a message of its own as well.
\<close>

theorem GetUpstreams_message_counterexample:
  "NacosProvider.upstreams (Nacos_New\<lparr>NacosProvider.ServiceName := ''web''\<rparr>) = []
   \<and> Nacos_GetUpstreams (Nacos_New\<lparr>NacosProvider.ServiceName := ''web''\<rparr>) =
       Inl (Errorf ''no healthy upstreams available for service: web'')
   \<and> Nacos_GetUpstreams (Nacos_New\<lparr>NacosProvider.ServiceName := ''web''\<rparr>) \<noteq>
       Inl (Errorf ''no upstreams available for service: web'')
   \<and> MdnsProvider.upstreams (Mdns_New\<lparr>MdnsProvider.ServiceName := ''_http._tcp''\<rparr>) = []
   \<and> Mdns_GetUpstreams (Mdns_New\<lparr>MdnsProvider.ServiceName := ''_http._tcp''\<rparr>) \<noteq>
       Inl (Errorf ''no upstreams available for service: _http._tcp'')"
  by (simp add: Nacos_GetUpstreams_def Nacos_New_def Mdns_GetUpstreams_def Mdns_New_def)

subsection \<open>The dispatch layer without a provider\<close>

text \<open>
  Claim C2, as amended. When no provider has been selected, the fetch and the validation of
  the dispatch layer fail with the error \<open>no service discovery provider is configured\<close>;
  the cleanup does not panic, changes nothing and returns no error.
\<close>

theorem DynamicSD_without_provider:
  "provider d = None \<Longrightarrow>
     DynamicSD_GetUpstreams d = Inl (Errorf ''no service discovery provider is configured'')
     \<and> DynamicSD_Validate d = Some (Errorf ''no service discovery provider is configured'')
     \<and> DynamicSD_Cleanup unsub d = Inr (d, None)"
  by (simp add: DynamicSD_GetUpstreams_def DynamicSD_Validate_def DynamicSD_Cleanup_def)

theorem DynamicSD_without_provider_witness:
  "DynamicSD_GetUpstreams \<lparr>provider = None\<rparr> =
     Inl (Errorf ''no service discovery provider is configured'')
   \<and> DynamicSD_Validate \<lparr>provider = None\<rparr> =
     Some (Errorf ''no service discovery provider is configured'')
   \<and> DynamicSD_Cleanup None \<lparr>provider = None\<rparr> = Inr (\<lparr>provider = None\<rparr>, None)"
  using DynamicSD_without_provider [of "\<lparr>provider = None\<rparr>" None]
  by simp

text \<open>
  Claim C2 as it was stated fails for the cleanup: without a provider it returns a nil error,
  not the error of the two other operations.
\<close>

theorem DynamicSD_Cleanup_nil_counterexample:
  "provider \<lparr>provider = None\<rparr> = None
   \<and> DynamicSD_Cleanup None \<lparr>provider = None\<rparr> = Inr (\<lparr>provider = None\<rparr>, None)
   \<and> DynamicSD_Cleanup None \<lparr>provider = None\<rparr> \<noteq>
       Inr (\<lparr>provider = None\<rparr>, Some (Errorf ''no service discovery provider is configured''))"
  by (simp add: DynamicSD_Cleanup_def)

subsection \<open>Cleanup of the Registry-Push provider\<close>

lemma Nacos_Cleanup_failed_unsubscribe_calls:
  "NacosProvider.client np = Some c \<Longrightarrow>
   map_option calls (NacosProvider.client (fst (Nacos_Cleanup (Some err) np))) =
     Some (calls c @ [Unsubscribe (NacosProvider.ServiceName np) (GroupName np)])"
  by (simp add: Nacos_Cleanup_def Nacos_log_def)

text \<open>
  Claim C3, run on the code. On a provisioned provider whose registry answers the unsubscribe
  call with the error \<open>timeout\<close>, \<open>Cleanup\<close> returns the unsubscribe error and the calls made on
  the client end with the unsubscribe call: the client is not closed. When the unsubscribe
  call succeeds, \<open>CloseClient\<close> follows it.
\<close>

theorem Nacos_Cleanup_unsubscribe_fails:
  "map_option calls (NacosProvider.client provisioned_web) =
     Some [Subscribe ''web'' ''DEFAULT_GROUP'' []]
   \<and> snd (Nacos_Cleanup (Some (Errorf ''timeout'')) provisioned_web) =
       Some (Errorf (''unsubscribing from nacos service '' @ [apostrophe] @ ''web'' @
                     [apostrophe] @ '': timeout''))
   \<and> map_option calls
         (NacosProvider.client (fst (Nacos_Cleanup (Some (Errorf ''timeout'')) provisioned_web))) =
       Some [Subscribe ''web'' ''DEFAULT_GROUP'' [], Unsubscribe ''web'' ''DEFAULT_GROUP'']
   \<and> snd (Nacos_Cleanup None provisioned_web) = None
   \<and> map_option calls (NacosProvider.client (fst (Nacos_Cleanup None provisioned_web))) =
       Some [Subscribe ''web'' ''DEFAULT_GROUP'' [], Unsubscribe ''web'' ''DEFAULT_GROUP'',
             CloseClient]"
  by (simp add: provisioned_web_def Nacos_Provision_def subscribeToServiceChanges_def
        Nacos_Cleanup_def Nacos_New_def Nacos_log_def)

subsection \<open>The consumer of the Broadcast-Listen provider\<close>

text \<open>
  The map of the consumer keeps one pair for each key, from the empty map it starts with. An
  entry that has an IPv4 address whose text is not empty maps its instance to the dial target
  built from the first IPv4 address.
\<close>

lemma runDiscovery_entry_keys:
  "runDiscovery_entry IP_String range_order (activeServices, mp) entry = Inr (activeServices1, mp1) \<Longrightarrow>
   distinct (map fst activeServices) \<Longrightarrow> distinct (map fst activeServices1)"
  by (auto simp add: runDiscovery_entry_def Let_def distinct_delete distinct_update
        split: if_splits option.splits)

lemma runDiscovery_consumer_keys:
  "runDiscovery_consumer IP_String range_order st entries = Inr st1 \<Longrightarrow>
   distinct (map fst (fst st)) \<Longrightarrow> distinct (map fst (fst st1))"
proof (induction entries arbitrary: st)
  case Nil
  then show ?case by simp
next
  case (Cons entry entries)
  from Cons.prems(1) obtain st2 where
    step: "runDiscovery_entry IP_String range_order st entry = Inr st2" and
    rest: "runDiscovery_consumer IP_String range_order st2 entries = Inr st1"
    by (auto split: sum.splits)
  from step Cons.prems(2) have "distinct (map fst (fst st2))"
    using runDiscovery_entry_keys [of IP_String range_order "fst st" "snd st" entry "fst st2" "snd st2"]
    by simp
  with rest show ?case
    by (rule Cons.IH)
qed

lemma runDiscovery_entry_first_IPv4:
  "TTL entry \<noteq> 0 \<Longrightarrow> AddrIPv4 entry = ip # ips \<Longrightarrow> IP_String ip \<noteq> '''' \<Longrightarrow>
   \<exists>activeServices1 mp1.
     runDiscovery_entry IP_String range_order (activeServices, mp) entry =
       Inr (activeServices1, mp1) \<and>
     map_of activeServices1 =
       (map_of activeServices)(Instance entry \<mapsto>
          \<lparr>Dial = JoinHostPort (IP_String ip) (Itoa (zeroconf_ServiceEntry.Port entry))\<rparr>)"
  by (simp add: runDiscovery_entry_def Let_def update_conv')

text \<open>
  Claim C1, run on the code. The entry of a host with one IPv6 address and no IPv4 address,
  with a time-to-live that is not zero, makes the consumer panic on the index \<open>AddrIPv4[0]\<close>,
  whatever \<open>String\<close> returns for an address and whatever is in the provider; the loop ends
  there. The same entry without the IPv6 address panics too, so it is not skipped.
\<close>

theorem runDiscovery_entry_no_IPv4_panics:
  "TTL ipv6_only_entry \<noteq> 0
   \<and> length (AddrIPv4 ipv6_only_entry) = 0
   \<and> length (AddrIPv6 ipv6_only_entry) = 1
   \<and> runDiscovery_entry IP_String range_order ([], mp) ipv6_only_entry =
       Inl (IndexOutOfRange 0 0)
   \<and> runDiscovery_consumer IP_String range_order ([], mp) [ipv6_only_entry] =
       Inl (IndexOutOfRange 0 0)
   \<and> runDiscovery_entry IP_String range_order ([], mp) (ipv6_only_entry\<lparr>AddrIPv6 := []\<rparr>) =
       Inl (IndexOutOfRange 0 0)"
  by (simp add: ipv6_only_entry_def runDiscovery_entry_def)

lemma Mdns_updateUpstreams_fold:
  "foldl (\<lambda>newUpstreams (_, up). newUpstreams @ [up]) acc xs = acc @ map snd xs"
  by (induction xs arbitrary: acc) (simp_all add: case_prod_beta)

lemma Mdns_updateUpstreams_upstreams:
  "MdnsProvider.upstreams (Mdns_updateUpstreams range_order activeServices mp) =
     map snd (range_order activeServices)"
  by (simp add: Mdns_updateUpstreams_def Mdns_updateUpstreams_fold Mdns_log_def)

lemma mset_values_of_map:
  "distinct (map fst al) \<Longrightarrow>
   mset (map snd al) = image_mset (\<lambda>k. the (map_of al k)) (mset_set (dom (map_of al)))"
proof (induction al)
  case Nil
  then show ?case by simp
next
  case (Cons p al)
  obtain k v where p: "p = (k, v)" by (cases p)
  define f where "f = (\<lambda>k'. the (map_of (p # al) k'))"
  from Cons.prems p have fresh: "k \<notin> dom (map_of al)" and dist: "distinct (map fst al)"
    by (auto simp add: dom_map_of_conv_image_fst)
  have fin: "finite (dom (map_of al))"
    by (rule finite_dom_map_of)
  have fk: "f k = v"
    by (simp add: f_def p)
  have same: "image_mset f (mset_set (dom (map_of al))) =
              image_mset (\<lambda>k'. the (map_of al k')) (mset_set (dom (map_of al)))"
    using fresh fin by (intro image_mset_cong) (auto simp add: p f_def)
  have dom_eq: "dom (map_of (p # al)) = insert k (dom (map_of al))"
    by (auto simp add: p)
  have "image_mset f (mset_set (dom (map_of (p # al)))) =
        add_mset (f k) (image_mset f (mset_set (dom (map_of al))))"
    unfolding dom_eq using fresh fin by simp
  also have "\<dots> = add_mset v (mset (map snd al))"
    unfolding fk same using Cons.IH [OF dist] by simp
  also have "\<dots> = mset (map snd (p # al))"
    by (simp add: p)
  finally have "image_mset f (mset_set (dom (map_of (p # al)))) = mset (map snd (p # al))" .
  then show ?case
    unfolding f_def by (rule sym)
qed

text \<open>
  Claim C8. Take any order of visit of the map and a map with one pair for each key. An entry
  with a time-to-live of zero never panics. When its instance is a key of the map, the map
  afterwards is the map before without that key, and the installed snapshot holds, once for
  each remaining key, the record that key had before, and nothing else. When its instance is
  not a key of the map, the map and the provider, hence the store, are unchanged.
\<close>

theorem runDiscovery_entry_TTL_zero:
  assumes order: "\<forall>xs. mset (range_order xs) = mset xs"
    and keys: "distinct (map fst activeServices)"
    and ttl: "TTL entry = 0"
  shows "\<exists>activeServices1 mp1.
           runDiscovery_entry IP_String range_order (activeServices, mp) entry =
             Inr (activeServices1, mp1) \<and>
           distinct (map fst activeServices1) \<and>
           (if Instance entry \<in> dom (map_of activeServices)
            then map_of activeServices1 = (map_of activeServices)(Instance entry := None) \<and>
                 mset (MdnsProvider.upstreams mp1) =
                   image_mset (\<lambda>k. the (map_of activeServices k))
                     (mset_set (dom (map_of activeServices) - {Instance entry}))
            else activeServices1 = activeServices \<and> mp1 = mp)"
proof (cases "map_of activeServices (Instance entry)")
  case None
  then show ?thesis
    using ttl keys by (simp add: runDiscovery_entry_def domIff)
next
  case (Some u)
  let ?rest = "AList.delete (Instance entry) activeServices"
  let ?mp1 = "Mdns_updateUpstreams range_order ?rest
                (Mdns_log InfoLevel ''mDNS service instance left''
                   [zap_String ''instance'' (Instance entry)] mp)"
  have run: "runDiscovery_entry IP_String range_order (activeServices, mp) entry =
               Inr (?rest, ?mp1)"
    using ttl Some by (simp add: runDiscovery_entry_def Let_def)
  have dist: "distinct (map fst ?rest)"
    using keys by (rule distinct_delete)
  have rest_map: "map_of ?rest = (map_of activeServices)(Instance entry := None)"
    by (rule delete_conv')
  have "mset (MdnsProvider.upstreams ?mp1) = mset (map snd ?rest)"
    using order by (simp add: Mdns_updateUpstreams_upstreams)
  also have "\<dots> = image_mset (\<lambda>k. the (map_of ?rest k)) (mset_set (dom (map_of ?rest)))"
    using dist by (rule mset_values_of_map)
  also have "\<dots> = image_mset (\<lambda>k. the (map_of ?rest k))
                     (mset_set (dom (map_of activeServices) - {Instance entry}))"
    by (simp add: rest_map)
  also have "\<dots> = image_mset (\<lambda>k. the (map_of activeServices k))
                     (mset_set (dom (map_of activeServices) - {Instance entry}))"
    by (rule image_mset_cong) (auto simp add: rest_map finite_dom_map_of)
  finally have snap: "mset (MdnsProvider.upstreams ?mp1) =
      image_mset (\<lambda>k. the (map_of activeServices k))
        (mset_set (dom (map_of activeServices) - {Instance entry}))" .
  from Some have "Instance entry \<in> dom (map_of activeServices)"
    by (simp add: domI)
  with run dist rest_map snap show ?thesis
    by simp
qed

theorem runDiscovery_entry_TTL_zero_witness:
  "(\<exists>activeServices1 mp1.
      runDiscovery_entry (\<lambda>ip. '''') rev (three_services, Mdns_New) (goodbye ''b'') =
        Inr (activeServices1, mp1) \<and>
      map_of activeServices1 = (map_of three_services)(''b'' := None) \<and>
      mset (MdnsProvider.upstreams mp1) =
        {#\<lparr>Dial = ''10.0.0.1:80''\<rparr>, \<lparr>Dial = ''10.0.0.3:80''\<rparr>#})
   \<and> runDiscovery_entry (\<lambda>ip. '''') rev (three_services, Mdns_New) (goodbye ''d'') =
       Inr (three_services, Mdns_New)"
proof -
  have order: "\<forall>xs :: activeServices. mset (rev xs) = mset xs"
    by simp
  have keys: "distinct (map fst three_services)"
    by (simp add: three_services_def)
  have ttl: "TTL (goodbye inst) = 0" for inst
    by (simp add: goodbye_def)
  have present: "Instance (goodbye ''b'') \<in> dom (map_of three_services)"
    by (simp add: goodbye_def three_services_def)
  have absent: "Instance (goodbye ''d'') \<notin> dom (map_of three_services)"
    by (simp add: goodbye_def three_services_def)
  have rest: "dom (map_of three_services) - {Instance (goodbye ''b'')} = {''a'', ''c''}"
    by (auto simp add: goodbye_def three_services_def split: if_splits)
  have targets:
    "image_mset (\<lambda>k. the (map_of three_services k)) (mset_set {''a'', ''c''}) =
       {#\<lparr>Dial = ''10.0.0.1:80''\<rparr>, \<lparr>Dial = ''10.0.0.3:80''\<rparr>#}"
    by (simp add: three_services_def)
  from runDiscovery_entry_TTL_zero
    [OF order keys ttl [of "''b''"], where IP_String = "\<lambda>ip. ''''" and mp = Mdns_New]
  have left: "\<exists>activeServices1 mp1.
      runDiscovery_entry (\<lambda>ip. '''') rev (three_services, Mdns_New) (goodbye ''b'') =
        Inr (activeServices1, mp1) \<and>
      map_of activeServices1 = (map_of three_services)(''b'' := None) \<and>
      mset (MdnsProvider.upstreams mp1) =
        {#\<lparr>Dial = ''10.0.0.1:80''\<rparr>, \<lparr>Dial = ''10.0.0.3:80''\<rparr>#}"
    using present rest targets by (auto simp add: goodbye_def)
  from runDiscovery_entry_TTL_zero
    [OF order keys ttl [of "''d''"], where IP_String = "\<lambda>ip. ''''" and mp = Mdns_New]
  have right: "runDiscovery_entry (\<lambda>ip. '''') rev (three_services, Mdns_New) (goodbye ''d'') =
       Inr (three_services, Mdns_New)"
    using absent by auto
  from left right show ?thesis
    by (rule conjI)
qed

end
